theory Spec2Isabelle
  imports Main
begin

section \<open>The issue reporter window (issueReporterMain.ts)\<close>

text \<open>
  The theory embeds the class \<open>IssueReporter\<close> of
  \<open>vs/code/electron-browser/issue/issueReporterMain.ts\<close>: the data it holds, the page
  it draws on and its event handlers, as functions on an explicit state.

  Strings are lists of 8-bit characters. On ASCII text a character is one UTF-16 code unit
  and one UTF-8 byte, so \<open>substr\<close> and \<open>encodeURIComponent\<close> below agree with
  JavaScript's there.
\<close>

subsection \<open>Extensions and the report data\<close>

text \<open>
  Modelled from the spec: the enumeration \<open>IssueType\<close> is declared in
  \<open>issueReporterModel.ts\<close>, which is not among the sources. The spec gives its three
  values; the \<open>issue-type\<close> select of the page offers exactly these, and \<open>parseInt\<close>
  in the change handler reads the selected one back.
\<close>

datatype IssueType = Bug | PerformanceIssue | FeatureRequest

text \<open>
  The part of an extension's manifest the reporter reads. \<open>activationEvents\<close> and
  \<open>contributes\<close> are optional members: \<open>None\<close> is \<open>undefined\<close>. Of the
  \<open>contributes\<close> object only \<open>Object.keys\<close> is used, so it is held as the list of
  its keys.
\<close>

record IExtensionManifest =
  name :: string
  publisher :: string
  version :: string
  activationEvents :: "string list option"
  contributes :: "string list option"

record ILocalExtension =
  manifest :: IExtensionManifest

record VersionInfo =
  vscodeVersion :: string
  os :: string

record ProcessItem =
  pid :: nat
  cpu :: string
  memory :: string
  process_name :: string

text \<open>
  Modelled from the spec: the data object of \<open>IssueReporterModel\<close>
  (\<open>issueReporterModel.ts\<close>, not among the sources). The members written by the
  constructor of \<open>IssueReporter\<close> are always present; the others are \<open>undefined\<close>
  (\<open>None\<close>) until some update delivers them.
\<close>

record IssueReporterModelData =
  issueType :: IssueType
  includeSystemInfo :: bool
  includeWorkspaceInfo :: bool
  includeProcessInfo :: bool
  includeExtensions :: bool
  versionInfo :: VersionInfo
  issueDescription :: "string option"
  systemInfo :: "(string \<times> string) list option"
  processInfo :: "ProcessItem list option"
  workspaceInfo :: "string option"
  numberOfThemeExtesions :: "nat option"
  enabledNonThemeExtesions :: "ILocalExtension list option"

text \<open>
  One \<open>key: value\<close> pair of the object literal handed to \<open>update\<close>. The four
  include flags are addressed by their key string, as the click handler computes the key
  (\<open>{ [elementId]: ... }\<close>).
\<close>

datatype partial_entry =
    P_issueType IssueType
  | P_include string bool
  | P_issueDescription string
  | P_systemInfo "(string \<times> string) list"
  | P_processInfo "ProcessItem list"
  | P_workspaceInfo string
  | P_numberOfThemeExtesions "nat option"
  | P_enabledNonThemeExtesions "ILocalExtension list option"

fun assign_entry :: "partial_entry \<Rightarrow> IssueReporterModelData \<Rightarrow> IssueReporterModelData" where
  "assign_entry (P_issueType v) d = d\<lparr>issueType := v\<rparr>"
| "assign_entry (P_include k v) d =
     (if k = ''includeSystemInfo'' then d\<lparr>includeSystemInfo := v\<rparr>
      else if k = ''includeProcessInfo'' then d\<lparr>includeProcessInfo := v\<rparr>
      else if k = ''includeWorkspaceInfo'' then d\<lparr>includeWorkspaceInfo := v\<rparr>
      else if k = ''includeExtensions'' then d\<lparr>includeExtensions := v\<rparr>
      else d)"
| "assign_entry (P_issueDescription v) d = d\<lparr>issueDescription := Some v\<rparr>"
| "assign_entry (P_systemInfo v) d = d\<lparr>systemInfo := Some v\<rparr>"
| "assign_entry (P_processInfo v) d = d\<lparr>processInfo := Some v\<rparr>"
| "assign_entry (P_workspaceInfo v) d = d\<lparr>workspaceInfo := Some v\<rparr>"
| "assign_entry (P_numberOfThemeExtesions v) d = d\<lparr>numberOfThemeExtesions := v\<rparr>"
| "assign_entry (P_enabledNonThemeExtesions v) d = d\<lparr>enabledNonThemeExtesions := v\<rparr>"

text \<open>
  Modelled from the spec: \<open>IssueReporterModel.update\<close> (\<open>issueReporterModel.ts\<close>, not
  among the sources). The spec: a shallow merge, any key present in the partial replaces the
  prior value entirely, missing keys are untouched.
\<close>

definition update :: "partial_entry list \<Rightarrow> IssueReporterModelData \<Rightarrow> IssueReporterModelData" where
  "update newData d = foldl (\<lambda>acc e. assign_entry e acc) d newData"

text \<open>The read \<open>getData()[elementId]\<close> of an include flag by its key string.\<close>

definition getData_flag :: "IssueReporterModelData \<Rightarrow> string \<Rightarrow> bool" where
  "getData_flag d k =
     (if k = ''includeSystemInfo'' then includeSystemInfo d
      else if k = ''includeProcessInfo'' then includeProcessInfo d
      else if k = ''includeWorkspaceInfo'' then includeWorkspaceInfo d
      else includeExtensions d)"

subsection \<open>The page and the window\<close>

text \<open>
  An element of the page: the value of an input, its class list and its \<open>innerHTML\<close>.
  The page itself (\<open>issueReporterPage.ts\<close>) is not among the sources; the state takes it as
  given: \<open>dom_elems\<close> finds an element by the id or selector the source uses for it, and
  \<open>dom_order\<close> lists these handles in document order.
\<close>

record element =
  el_value :: string
  classList :: "string set"
  innerHTML :: string

datatype TelemetryService = TelemetryService | NullTelemetryService

datatype js_error = TypeError

record reporter =
  issueReporterModel :: IssueReporterModelData
  dom_elems :: "string \<Rightarrow> element"
  dom_order :: "string list"
  focused :: "string option"
  telemetryService :: "TelemetryService option"
  telemetryLog :: "(string \<times> IssueType) list"
  openedExternal :: "string list"
  inputListeners :: "string list"
  windowClosed :: bool

definition set_element :: "string \<Rightarrow> element \<Rightarrow> reporter \<Rightarrow> reporter" where
  "set_element h e w = w\<lparr>dom_elems := (dom_elems w)(h := e)\<rparr>"

definition classList_add :: "string \<Rightarrow> string \<Rightarrow> reporter \<Rightarrow> reporter" where
  "classList_add h c w =
     set_element h ((dom_elems w h)\<lparr>classList := insert c (classList (dom_elems w h))\<rparr>) w"

definition classList_remove :: "string \<Rightarrow> string \<Rightarrow> reporter \<Rightarrow> reporter" where
  "classList_remove h c w =
     set_element h ((dom_elems w h)\<lparr>classList := classList (dom_elems w h) - {c}\<rparr>) w"

definition set_innerHTML :: "string \<Rightarrow> string \<Rightarrow> reporter \<Rightarrow> reporter" where
  "set_innerHTML h s w = set_element h ((dom_elems w h)\<lparr>innerHTML := s\<rparr>) w"

definition hide :: "string \<Rightarrow> reporter \<Rightarrow> reporter" where
  "hide el w = classList_add el ''hidden'' w"

definition show_el :: "string \<Rightarrow> reporter \<Rightarrow> reporter" where
  "show_el el w = classList_remove el ''hidden'' w"

definition is_hidden :: "reporter \<Rightarrow> string \<Rightarrow> bool" where
  "is_hidden w el = (''hidden'' \<in> classList (dom_elems w el))"

definition getElementsByClassName :: "string \<Rightarrow> reporter \<Rightarrow> string list" where
  "getElementsByClassName c w = filter (\<lambda>h. c \<in> classList (dom_elems w h)) (dom_order w)"

text \<open>
  \<open>localize\<close> (\<open>vs/nls\<close>) is not among the sources; it is taken at its default, the
  English message it is called with.
\<close>

definition localize :: "string \<Rightarrow> string \<Rightarrow> string" where
  "localize key message = message"

definition required_star :: string where
  \<open>required_star = '' <span class="required-input">*</span>''\<close>

subsection \<open>renderBlocks\<close>

text \<open>A block of statements, run in order on the state.\<close>

definition run :: "('s \<Rightarrow> 's) list \<Rightarrow> 's \<Rightarrow> 's" where
  "run statements w = foldl (\<lambda>w' statement. statement w') w statements"

definition renderBlocks :: "reporter \<Rightarrow> reporter" where
  "renderBlocks w =
     (let systemBlock = ''.block-system'';
          processBlock = ''.block-process'';
          workspaceBlock = ''.block-workspace'';
          extensionsBlock = ''.block-extensions'';
          descriptionTitle = ''issue-description-label'';
          descriptionSubtitle = ''issue-description-subtitle''
      in
      if issueType (issueReporterModel w) = Bug then
        run [show_el systemBlock,
             hide processBlock,
             hide workspaceBlock,
             show_el extensionsBlock,
             set_innerHTML descriptionTitle
               (localize ''stepsToReproduce'' ''Steps to Reproduce'' @ required_star),
             show_el descriptionSubtitle,
             set_innerHTML descriptionSubtitle
               (localize ''bugDescription'' ''How did you encounter this problem? Please provide clear steps to reproduce the problem during our investigation. What did you expect to happen and what actually did happen?'')]
          w
      else if issueType (issueReporterModel w) = PerformanceIssue then
        run [show_el systemBlock,
             show_el processBlock,
             show_el workspaceBlock,
             show_el extensionsBlock,
             set_innerHTML descriptionTitle
               (localize ''stepsToReproduce'' ''Steps to Reproduce'' @ required_star),
             show_el descriptionSubtitle,
             set_innerHTML descriptionSubtitle
               (localize ''performanceIssueDesciption'' ''When did this performance issue happen? For example, does it occur on startup or after a specific series of actions? Any details you can provide help our investigation.'')]
          w
      else
        run [hide systemBlock,
             hide processBlock,
             hide workspaceBlock,
             hide extensionsBlock,
             set_innerHTML descriptionTitle (localize ''description'' ''Description'' @ required_star),
             hide descriptionSubtitle]
          w)"

definition render :: "reporter \<Rightarrow> reporter" where
  "render w = renderBlocks w"

subsection \<open>JavaScript operations used by the source\<close>

text \<open>The template literal \<open>${n}\<close> of a non-negative integer: its decimal digits.\<close>

fun number_toString :: "nat \<Rightarrow> string" where
  "number_toString n =
     (if n < 10 then [''0123456789'' ! n]
      else number_toString (n div 10) @ [''0123456789'' ! (n mod 10)])"

definition substr :: "string \<Rightarrow> nat \<Rightarrow> nat \<Rightarrow> string" where
  "substr s start len = take len (drop start s)"

text \<open>\<open>a || b\<close> on an optional string: \<open>undefined\<close> and the empty string are falsy.\<close>

definition or_else :: "string option \<Rightarrow> string \<Rightarrow> string" where
  "or_else a b = (case a of None \<Rightarrow> b | Some s \<Rightarrow> if s = [] then b else s)"

text \<open>
  \<open>encodeURIComponent\<close>: every byte but the letters, the digits and
  \<open>- _ . ! ~ * ' ( )\<close> becomes \<open>%XX\<close>.
\<close>

definition uri_unreserved :: "char \<Rightarrow> bool" where
  "uri_unreserved c =
     (c \<in> set (''ABCDEFGHIJKLMNOPQRSTUVWXYZabcdefghijklmnopqrstuvwxyz0123456789-_.!~*()'' @ [CHR 0x27]))"

definition percent_byte :: "char \<Rightarrow> string" where
  "percent_byte c =
     [CHR ''%'', ''0123456789ABCDEF'' ! (of_char c div 16), ''0123456789ABCDEF'' ! (of_char c mod 16)]"

definition encodeURIComponent :: "string \<Rightarrow> string" where
  "encodeURIComponent s = concat (map (\<lambda>c. if uri_unreserved c then [c] else percent_byte c) s)"

text \<open>
  Modelled from the spec: \<open>collections.groupBy\<close> (\<open>vs/base/common/collections.ts\<close>, not
  among the sources), the grouping step: every element is appended, in order, to the group
  its key names, and a key no element maps to has no group (\<open>undefined\<close>).
\<close>

definition groupBy :: "'a list \<Rightarrow> ('a \<Rightarrow> string) \<Rightarrow> (string \<rightharpoonup> 'a list)" where
  "groupBy data groupFn =
     foldl (\<lambda>result element.
              let key = groupFn element;
                  target = (case result key of None \<Rightarrow> [] | Some t \<Rightarrow> t)
              in result(key \<mapsto> target @ [element]))
           Map.empty data"

subsection \<open>handleExtensionData and updateExtensionTable\<close>

definition nl_tabs :: "nat \<Rightarrow> string" where
  "nl_tabs n = CHR 0x0A # replicate n (CHR 0x09)"

definition themeExclusionStr :: "nat option \<Rightarrow> string" where
  "themeExclusionStr numThemeExtensions =
     (case numThemeExtensions of
        None \<Rightarrow> []
      | Some n \<Rightarrow>
          if n \<noteq> 0 then [CHR 0x0A] @ ''('' @ number_toString n @ '' theme extensions excluded)''
          else [])"

definition table_header :: string where
  "table_header =
     nl_tabs 3 @ ''<tr>'' @
     nl_tabs 4 @ ''<th>Extension</th>'' @
     nl_tabs 4 @ ''<th>Author (truncated)</th>'' @
     nl_tabs 4 @ ''<th>Version</th>'' @
     nl_tabs 3 @ ''</tr>''"

definition table_row :: "ILocalExtension \<Rightarrow> string" where
  "table_row extension =
     nl_tabs 4 @ ''<tr>'' @
     nl_tabs 5 @ ''<td>'' @ name (manifest extension) @ ''</td>'' @
     nl_tabs 5 @ ''<td>'' @ substr (publisher (manifest extension)) 0 3 @ ''</td>'' @
     nl_tabs 5 @ ''<td>'' @ version (manifest extension) @ ''</td>'' @
     nl_tabs 4 @ ''</tr>''"

definition updateExtensionTable :: "ILocalExtension list option \<Rightarrow> nat option \<Rightarrow> reporter \<Rightarrow> reporter" where
  "updateExtensionTable extensions numThemeExtensions w =
     (let target = ''.block-extensions .block-info'';
          exclusion = themeExclusionStr numThemeExtensions;
          extensions' = (case extensions of None \<Rightarrow> [] | Some xs \<Rightarrow> xs)
      in
      if length extensions' = 0 then set_innerHTML target (''Extensions: none'' @ exclusion) w
      else
        let table = foldl (\<lambda>table extension. table @ table_row extension) table_header extensions'
        in set_innerHTML target (''<table>'' @ table @ ''</table>'' @ exclusion) w)"

definition onlyTheme :: "ILocalExtension \<Rightarrow> bool" where
  "onlyTheme ext =
     (let manifestKeys = (case contributes (manifest ext) of None \<Rightarrow> [] | Some ks \<Rightarrow> ks)
      in activationEvents (manifest ext) = None \<and> length manifestKeys = 1 \<and>
         manifestKeys ! 0 = ''themes'')"

definition handleExtensionData :: "ILocalExtension list \<Rightarrow> reporter \<Rightarrow> reporter" where
  "handleExtensionData extensions w =
     (let groups = groupBy extensions (\<lambda>ext. if onlyTheme ext then ''themes'' else ''nonThemes'');
          nonThemes = groups ''nonThemes'';
          themes = groups ''themes'';
          numberOfThemeExtesions = (case themes of None \<Rightarrow> None | Some t \<Rightarrow> Some (length t));
          w' = w\<lparr>issueReporterModel :=
                   update [P_numberOfThemeExtesions numberOfThemeExtesions,
                           P_enabledNonThemeExtesions nonThemes]
                     (issueReporterModel w)\<rparr>
      in updateExtensionTable nonThemes numberOfThemeExtesions w')"

subsection \<open>Validation and submission\<close>

definition validateInput :: "string \<Rightarrow> reporter \<Rightarrow> bool \<times> reporter" where
  "validateInput inputId w =
     (if el_value (dom_elems w inputId) = [] then
        (False, classList_add inputId ''invalid-input'' (show_el (inputId @ ''-validation-error'') w))
      else
        (True, classList_remove inputId ''invalid-input'' (hide (inputId @ ''-validation-error'') w)))"

definition validateInputs :: "reporter \<Rightarrow> bool \<times> reporter" where
  "validateInputs w =
     foldl (\<lambda>(isValid, w') elementId.
              case validateInput elementId w' of (v, w'') \<Rightarrow> (v \<and> isValid, w''))
           (True, w) [''issue-title'', ''description'']"

definition publicLog :: "string \<Rightarrow> IssueType \<Rightarrow> reporter \<Rightarrow> reporter" where
  "publicLog eventName t w =
     (case telemetryService w of
        Some TelemetryService \<Rightarrow> w\<lparr>telemetryLog := telemetryLog w @ [(eventName, t)]\<rparr>
      | _ \<Rightarrow> w)"

text \<open>
  \<open>createIssue\<close>. \<open>serialize\<close> is a method of \<open>IssueReporterModel\<close>, not among the
  sources: it is a parameter. Reading element 0 of an empty collection gives
  \<open>undefined\<close>, and calling \<open>focus\<close> on it throws.
\<close>

definition createIssue ::
    "(IssueReporterModelData \<Rightarrow> string) \<Rightarrow> reporter \<Rightarrow> js_error + (bool \<times> reporter)" where
  "createIssue serialize w =
     (case validateInputs w of (valid, w1) \<Rightarrow>
        if \<not> valid then
          (case getElementsByClassName ''invalid-input'' w1 of
             [] \<Rightarrow> Inl TypeError
           | first # _ \<Rightarrow>
               Inr (False, w1\<lparr>focused := Some first,
                               inputListeners := inputListeners w1 @ [''issue-title'', ''description'']\<rparr>))
        else
          let w2 = (if telemetryService w1 \<noteq> None
                    then publicLog ''issueReporterSubmit'' (issueType (issueReporterModel w1)) w1
                    else w1);
              issueTitle = el_value (dom_elems w2 ''issue-title'');
              baseUrl = ''https://github.com/microsoft/vscode/issues/new?title='' @ issueTitle @ ''&body='';
              issueBody = serialize (issueReporterModel w2)
          in Inr (True, w2\<lparr>openedExternal := openedExternal w2 @ [baseUrl @ encodeURIComponent issueBody]\<rparr>))"

subsection \<open>Event handlers\<close>

text \<open>The \<open>change\<close> handler of the \<open>issue-type\<close> select.\<close>

definition onIssueTypeChange :: "IssueType \<Rightarrow> reporter \<Rightarrow> reporter" where
  "onIssueTypeChange v w =
     render (w\<lparr>issueReporterModel := update [P_issueType v] (issueReporterModel w)\<rparr>)"

text \<open>
  The \<open>click\<close> handler registered for each of the four include checkboxes
  \<open>includeSystemInfo\<close>, \<open>includeProcessInfo\<close>, \<open>includeWorkspaceInfo\<close> and
  \<open>includeExtensions\<close>; \<open>elementId\<close> is the id of the checkbox.
\<close>

definition onIncludeClick :: "string \<Rightarrow> reporter \<Rightarrow> reporter" where
  "onIncludeClick elementId w =
     w\<lparr>issueReporterModel :=
         update [P_include elementId (\<not> getData_flag (issueReporterModel w) elementId)]
           (issueReporterModel w)\<rparr>"

text \<open>The \<open>blur\<close> handler of the description field.\<close>

definition onDescriptionBlur :: "reporter \<Rightarrow> reporter" where
  "onDescriptionBlur w =
     w\<lparr>issueReporterModel :=
         update [P_issueDescription (el_value (dom_elems w ''description''))] (issueReporterModel w)\<rparr>"

record KeyboardEvent =
  shiftKey :: bool
  keyCode :: nat

definition onkeydown ::
    "(IssueReporterModelData \<Rightarrow> string) \<Rightarrow> KeyboardEvent \<Rightarrow> reporter \<Rightarrow> js_error + reporter" where
  "onkeydown serialize e w =
     (if shiftKey e \<and> keyCode e = 13 then
        (case createIssue serialize w of
           Inl err \<Rightarrow> Inl err
         | Inr (created, w') \<Rightarrow> if created then Inr (w'\<lparr>windowClosed := True\<rparr>) else Inr w')
      else Inr w)"

subsection \<open>The constructor\<close>

text \<open>
  What the constructor reads: the package and product descriptions, the operating system,
  the language of the page, the telemetry service \<open>initServices\<close> ends up with, and the
  extensions of the window configuration. The page is given by its elements and their
  order. Zoom and the style sheet (\<open>applyZoom\<close>, \<open>applyStyles\<close>) touch neither the
  report data nor the elements modelled here, and registering the handlers changes no state.
\<close>

record IssueReporterConfiguration =
  pkg_name :: string
  pkg_version :: string
  product_commit :: "string option"
  product_date :: "string option"
  os_type :: string
  os_arch :: string
  os_release :: string
  document_lang :: string
  services_telemetry :: TelemetryService
  data_enabledExtensions :: "ILocalExtension list"

text \<open>
  Modelled from the spec: the constructor of \<open>IssueReporterModel\<close> (not among the
  sources) keeps the initial data it is given; every member not given is \<open>undefined\<close>.
\<close>

definition new_IssueReporterModel ::
    "IssueType \<Rightarrow> bool \<Rightarrow> bool \<Rightarrow> bool \<Rightarrow> bool \<Rightarrow> VersionInfo \<Rightarrow> IssueReporterModelData" where
  "new_IssueReporterModel t sys ws proc exts v =
     \<lparr>issueType = t, includeSystemInfo = sys, includeWorkspaceInfo = ws,
      includeProcessInfo = proc, includeExtensions = exts, versionInfo = v,
      issueDescription = None, systemInfo = None, processInfo = None, workspaceInfo = None,
      numberOfThemeExtesions = None, enabledNonThemeExtesions = None\<rparr>"

definition IssueReporter_constructor ::
    "IssueReporterConfiguration \<Rightarrow> (string \<Rightarrow> element) \<Rightarrow> string list \<Rightarrow> reporter" where
  "IssueReporter_constructor configuration page page_order =
     (let model =
            new_IssueReporterModel Bug True True True True
              \<lparr>vscodeVersion =
                  pkg_name configuration @ '' '' @ pkg_version configuration @ '' ('' @
                  or_else (product_commit configuration) ''Commit unknown'' @ '', '' @
                  or_else (product_date configuration) ''Date unknown'' @ '')'',
               os = os_type configuration @ '' '' @ os_arch configuration @ '' '' @
                    os_release configuration\<rparr>;
          w0 = \<lparr>issueReporterModel = model, dom_elems = page, dom_order = page_order,
                focused = None, telemetryService = Some (services_telemetry configuration),
                telemetryLog = [], openedExternal = [], inputListeners = [],
                windowClosed = False\<rparr>;
          w1 = (if document_lang configuration \<noteq> ''en'' then show_el ''english'' w0 else w0)
      in handleExtensionData (data_enabledExtensions configuration) w1)"

subsection \<open>Reading a URL\<close>

text \<open>
  The query component of a URL (RFC 3986): what stands after the first \<open>?\<close>, up to the first
  \<open>#\<close>, where the fragment starts. Its parameters are separated by \<open>&\<close>.
\<close>

definition url_query :: "string \<Rightarrow> string" where
  "url_query url =
     takeWhile (\<lambda>c. c \<noteq> CHR ''#'') (drop 1 (dropWhile (\<lambda>c. c \<noteq> CHR ''?'') url))"

fun split_on :: "char \<Rightarrow> string \<Rightarrow> string list" where
  "split_on sep [] = [[]]"
| "split_on sep (c # cs) =
     (if c = sep then [] # split_on sep cs
      else (case split_on sep cs of [] \<Rightarrow> [[c]] | p # ps \<Rightarrow> (c # p) # ps))"

definition url_parameters :: "string \<Rightarrow> (string \<times> string) list" where
  "url_parameters url =
     map (\<lambda>p. (takeWhile (\<lambda>c. c \<noteq> CHR ''='') p, drop 1 (dropWhile (\<lambda>c. c \<noteq> CHR ''='') p)))
       (split_on (CHR ''&'') (url_query url))"

subsection \<open>A sample window\<close>

text \<open>
  A small page with the two required fields, in document order, and three extensions: one
  that only contributes themes, one ordinary one, and one that only contributes themes but
  carries an empty \<open>activationEvents\<close> array.
\<close>

definition example_window :: "string \<Rightarrow> string \<Rightarrow> reporter" where
  "example_window title description =
     \<lparr>issueReporterModel =
        new_IssueReporterModel Bug True True True True
          \<lparr>vscodeVersion = ''code 1.20.0 (Commit unknown, Date unknown)'', os = ''Linux x64 4.4.0''\<rparr>,
      dom_elems =
        (\<lambda>h. \<lparr>el_value = [], classList = {}, innerHTML = []\<rparr>)
          (''issue-title'' := \<lparr>el_value = title, classList = {}, innerHTML = []\<rparr>,
           ''description'' := \<lparr>el_value = description, classList = {}, innerHTML = []\<rparr>),
      dom_order = [''issue-title'', ''description''],
      focused = None,
      telemetryService = Some NullTelemetryService,
      telemetryLog = [],
      openedExternal = [],
      inputListeners = [],
      windowClosed = False\<rparr>"

definition example_theme :: ILocalExtension where
  "example_theme =
     \<lparr>manifest = \<lparr>name = ''theme-dracula'', publisher = ''dracula'', version = ''2.0.1'',
                   activationEvents = None, contributes = Some [''themes'']\<rparr>\<rparr>"

definition example_extension :: ILocalExtension where
  "example_extension =
     \<lparr>manifest = \<lparr>name = ''python'', publisher = ''ms-python'', version = ''0.9.1'',
                   activationEvents = Some [''onLanguage:python''],
                   contributes = Some [''commands'', ''themes'']\<rparr>\<rparr>"

definition example_empty_events :: ILocalExtension where
  "example_empty_events =
     \<lparr>manifest = \<lparr>name = ''theme-solar'', publisher = ''solar'', version = ''1.0.0'',
                   activationEvents = Some [], contributes = Some [''themes'']\<rparr>\<rparr>"

subsection \<open>The spec's wording of a theme-only extension\<close>

text \<open>
  The spec calls an extension theme-only when its manifest declares only a \<open>themes\<close>
  contribution and no activation events. Read by its words, a manifest declares no
  activation events when it names none: the member is absent, or it is the empty array.
  \<open>onlyTheme\<close> above is what the source computes; the two are compared below.
\<close>

definition declares_no_activation_events :: "IExtensionManifest \<Rightarrow> bool" where
  "declares_no_activation_events m =
     (case activationEvents m of None \<Rightarrow> True | Some events \<Rightarrow> events = [])"

definition spec_theme_only :: "ILocalExtension \<Rightarrow> bool" where
  "spec_theme_only ext =
     (declares_no_activation_events (manifest ext) \<and>
      contributes (manifest ext) = Some [''themes''])"

section \<open>Properties\<close>

lemma dom_elems_set_element [simp]:
  "dom_elems (set_element h e w) = (dom_elems w)(h := e)"
  by (simp add: set_element_def)

lemma is_hidden_hide [simp]:
  "is_hidden (hide el w) h = (h = el \<or> is_hidden w h)"
  by (auto simp: is_hidden_def hide_def classList_add_def)

lemma is_hidden_show_el [simp]:
  "is_hidden (show_el el w) h = (h \<noteq> el \<and> is_hidden w h)"
  by (auto simp: is_hidden_def show_el_def classList_remove_def)

lemma is_hidden_set_innerHTML [simp]:
  "is_hidden (set_innerHTML el s w) h = is_hidden w h"
  by (simp add: is_hidden_def set_innerHTML_def)

text \<open>
  C1. The blocks \<open>renderBlocks\<close> leaves shown and hidden follow the rule table, whatever
  the page looked like before: for Bug the system and extensions blocks are shown and the
  process and workspace blocks hidden; for PerformanceIssue all four are shown; for
  FeatureRequest, the remaining case, all four are hidden.
\<close>

theorem renderBlocks_rule_table:
  "(case issueType (issueReporterModel w) of
      Bug \<Rightarrow>
        \<not> is_hidden (renderBlocks w) ''.block-system'' \<and>
        is_hidden (renderBlocks w) ''.block-process'' \<and>
        is_hidden (renderBlocks w) ''.block-workspace'' \<and>
        \<not> is_hidden (renderBlocks w) ''.block-extensions''
    | PerformanceIssue \<Rightarrow>
        \<not> is_hidden (renderBlocks w) ''.block-system'' \<and>
        \<not> is_hidden (renderBlocks w) ''.block-process'' \<and>
        \<not> is_hidden (renderBlocks w) ''.block-workspace'' \<and>
        \<not> is_hidden (renderBlocks w) ''.block-extensions''
    | FeatureRequest \<Rightarrow>
        is_hidden (renderBlocks w) ''.block-system'' \<and>
        is_hidden (renderBlocks w) ''.block-process'' \<and>
        is_hidden (renderBlocks w) ''.block-workspace'' \<and>
        is_hidden (renderBlocks w) ''.block-extensions'')"
  by (cases "issueType (issueReporterModel w)") (simp_all add: renderBlocks_def run_def Let_def)

lemmas dom_defs = set_element_def classList_add_def classList_remove_def set_innerHTML_def
  hide_def show_el_def

lemma groupBy_foldl:
  "foldl (\<lambda>result element.
              let key = groupFn element;
                  target = (case result key of None \<Rightarrow> [] | Some t \<Rightarrow> t)
              in result(key \<mapsto> target @ [element])) acc data k =
   (if filter (\<lambda>e. groupFn e = k) data = [] then acc k
    else Some ((case acc k of None \<Rightarrow> [] | Some t \<Rightarrow> t) @ filter (\<lambda>e. groupFn e = k) data))"
  by (induction data arbitrary: acc) (auto simp: Let_def split: option.splits)

lemma groupBy_group:
  "groupBy data groupFn k =
   (if filter (\<lambda>e. groupFn e = k) data = [] then None
    else Some (filter (\<lambda>e. groupFn e = k) data))"
  using groupBy_foldl [of groupFn Map.empty data k] by (simp add: groupBy_def)

lemma groupBy_themes:
  "groupBy extensions (\<lambda>ext. if onlyTheme ext then ''themes'' else ''nonThemes'') ''themes'' =
   (if filter onlyTheme extensions = [] then None else Some (filter onlyTheme extensions))"
proof -
  have "(\<lambda>e. (if onlyTheme e then ''themes'' else ''nonThemes'') = ''themes'') = onlyTheme"
    by (rule ext) simp
  then show ?thesis by (simp add: groupBy_group)
qed

lemma groupBy_nonThemes:
  "groupBy extensions (\<lambda>ext. if onlyTheme ext then ''themes'' else ''nonThemes'') ''nonThemes'' =
   (if filter (\<lambda>e. \<not> onlyTheme e) extensions = [] then None
    else Some (filter (\<lambda>e. \<not> onlyTheme e) extensions))"
proof -
  have "(\<lambda>e. (if onlyTheme e then ''themes'' else ''nonThemes'') = ''nonThemes'') = (\<lambda>e. \<not> onlyTheme e)"
    by (rule ext) simp
  then show ?thesis by (simp add: groupBy_group)
qed

lemma foldl_table_rows:
  "foldl (\<lambda>table extension. table @ f extension) acc xs = acc @ concat (map f xs)"
  by (induction xs arbitrary: acc) auto

lemma model_updateExtensionTable [simp]:
  "issueReporterModel (updateExtensionTable extensions n w) = issueReporterModel w"
  by (simp add: updateExtensionTable_def Let_def dom_defs)

lemma target_updateExtensionTable:
  "innerHTML (dom_elems (updateExtensionTable extensions n w) ''.block-extensions .block-info'') =
   (case extensions of
      None \<Rightarrow> ''Extensions: none''
    | Some xs \<Rightarrow>
        if xs = [] then ''Extensions: none''
        else ''<table>'' @ table_header @ concat (map table_row xs) @ ''</table>'') @
   themeExclusionStr n"
  by (simp add: updateExtensionTable_def Let_def dom_defs foldl_table_rows split: option.splits)

lemma model_handleExtensionData:
  "issueReporterModel (handleExtensionData extensions w) =
   (issueReporterModel w)
     \<lparr>numberOfThemeExtesions :=
        (if filter onlyTheme extensions = [] then None
         else Some (length (filter onlyTheme extensions))),
      enabledNonThemeExtesions :=
        (if filter (\<lambda>e. \<not> onlyTheme e) extensions = [] then None
         else Some (filter (\<lambda>e. \<not> onlyTheme e) extensions))\<rparr>"
  by (simp add: handleExtensionData_def Let_def groupBy_themes groupBy_nonThemes update_def)

text \<open>
  C2. An extension is sorted into the themes group exactly when its manifest has no
  \<open>activationEvents\<close> member at all and its \<open>contributes\<close> object has the single
  key \<open>themes\<close>; an \<open>activationEvents\<close> array that is present but empty is a
  member, and keeps the extension out of the group. The count handed to the model is the
  number of the extensions in the group, and the list handed to the model holds all the
  other extensions, in order, and no theme-only one. A group without members is
  \<open>undefined\<close>: then so are the count and the list.
\<close>

theorem handleExtensionData_theme_only:
  "(onlyTheme ext \<longleftrightarrow>
      activationEvents (manifest ext) = None \<and> contributes (manifest ext) = Some [''themes'']) \<and>
   numberOfThemeExtesions (issueReporterModel (handleExtensionData extensions w)) =
     (if filter onlyTheme extensions = [] then None
      else Some (length (filter onlyTheme extensions))) \<and>
   enabledNonThemeExtesions (issueReporterModel (handleExtensionData extensions w)) =
     (if filter (\<lambda>e. \<not> onlyTheme e) extensions = [] then None
      else Some (filter (\<lambda>e. \<not> onlyTheme e) extensions))"
proof -
  have "onlyTheme ext \<longleftrightarrow>
      activationEvents (manifest ext) = None \<and> contributes (manifest ext) = Some [''themes'']"
    by (auto simp: onlyTheme_def Let_def length_Suc_conv split: option.splits)
  then show ?thesis by (simp add: model_handleExtensionData)
qed

text \<open>
  The source tests \<open>!ext.manifest.activationEvents\<close>, and an empty array is truthy. So an
  extension that declares no activation events by way of an empty array, and contributes
  only themes, is theme-only in the spec's words but not for the source: it is listed by
  name and not counted.
\<close>

theorem theme_only_empty_events_counterexample:
  "spec_theme_only example_empty_events \<and>
   \<not> onlyTheme example_empty_events \<and>
   enabledNonThemeExtesions
     (issueReporterModel
        (handleExtensionData [example_empty_events] (example_window ''t'' ''d''))) =
     Some [example_empty_events] \<and>
   numberOfThemeExtesions
     (issueReporterModel
        (handleExtensionData [example_empty_events] (example_window ''t'' ''d''))) = None"
proof -
  have spec: "spec_theme_only example_empty_events"
    by (simp add: spec_theme_only_def declares_no_activation_events_def example_empty_events_def)
  have code: "\<not> onlyTheme example_empty_events"
    by (simp add: onlyTheme_def example_empty_events_def)
  from code have
    "enabledNonThemeExtesions
       (issueReporterModel
          (handleExtensionData [example_empty_events] (example_window ''t'' ''d''))) =
       Some [example_empty_events]"
    "numberOfThemeExtesions
       (issueReporterModel
          (handleExtensionData [example_empty_events] (example_window ''t'' ''d''))) = None"
    by (simp_all add: model_handleExtensionData)
  with spec code show ?thesis by blast
qed

lemma handleExtensionData_example:
  "enabledNonThemeExtesions
     (issueReporterModel
        (handleExtensionData [example_theme, example_extension] (example_window ''t'' ''d''))) =
     Some [example_extension] \<and>
   numberOfThemeExtesions
     (issueReporterModel
        (handleExtensionData [example_theme, example_extension] (example_window ''t'' ''d''))) =
     Some 1"
  by (simp add: model_handleExtensionData onlyTheme_def example_theme_def example_extension_def)


text \<open>
  C9. When no delivered extension is a non-theme extension, the non-theme group is
  \<open>undefined\<close>; the table renderer reads it as the empty list and writes
  \<open>Extensions: none\<close>. The theme suffix follows exactly when the theme count is a number
  other than zero, and is left out when the count is zero or \<open>undefined\<close>.
\<close>

theorem updateExtensionTable_no_nonThemes:
  assumes "list_all onlyTheme extensions"
  shows "enabledNonThemeExtesions (issueReporterModel (handleExtensionData extensions w)) = None \<and>
    innerHTML (dom_elems (handleExtensionData extensions w) ''.block-extensions .block-info'') =
      ''Extensions: none'' @
      (if extensions = [] then []
       else [CHR 0x0A] @ ''('' @ number_toString (length extensions) @ '' theme extensions excluded)'') \<and>
    innerHTML (dom_elems (updateExtensionTable None n w) ''.block-extensions .block-info'') =
      ''Extensions: none'' @
      (case n of
         None \<Rightarrow> []
       | Some k \<Rightarrow>
           if k = 0 then []
           else [CHR 0x0A] @ ''('' @ number_toString k @ '' theme extensions excluded)'')"
proof -
  from assms have all: "filter onlyTheme extensions = extensions"
    by (simp add: list_all_iff)
  from assms have none: "filter (\<lambda>e. \<not> onlyTheme e) extensions = []"
    by (simp add: list_all_iff)
  have suffix: "themeExclusionStr n =
     (case n of
      None \<Rightarrow> []
    | Some n \<Rightarrow>
        if n = 0 then []
        else [CHR 0x0A] @ ''('' @ number_toString n @ '' theme extensions excluded)'')" for n
    by (simp add: themeExclusionStr_def split: option.splits)
  have 1: "enabledNonThemeExtesions (issueReporterModel (handleExtensionData extensions w)) = None"
    by (simp add: model_handleExtensionData none)
  have 2: "innerHTML (dom_elems (handleExtensionData extensions w) ''.block-extensions .block-info'') =
      ''Extensions: none'' @
      (if extensions = [] then []
       else [CHR 0x0A] @ ''('' @ number_toString (length extensions) @ '' theme extensions excluded)'')"
    by (simp add: handleExtensionData_def Let_def groupBy_themes groupBy_nonThemes
        target_updateExtensionTable all none suffix del: number_toString.simps)
  have 3: "innerHTML (dom_elems (updateExtensionTable None n w) ''.block-extensions .block-info'') =
      ''Extensions: none'' @
      (case n of
         None \<Rightarrow> []
       | Some k \<Rightarrow>
           if k = 0 then []
           else [CHR 0x0A] @ ''('' @ number_toString k @ '' theme extensions excluded)'')"
    by (simp add: target_updateExtensionTable suffix del: number_toString.simps)
  from 1 2 3 show ?thesis by blast
qed


theorem updateExtensionTable_no_nonThemes_witness:
  "enabledNonThemeExtesions
     (issueReporterModel (handleExtensionData [example_theme] (example_window ''t'' ''d''))) = None \<and>
   innerHTML (dom_elems (handleExtensionData [example_theme] (example_window ''t'' ''d''))
      ''.block-extensions .block-info'') =
     ''Extensions: none'' @ [CHR 0x0A] @ ''(1 theme extensions excluded)''"
  using updateExtensionTable_no_nonThemes [of "[example_theme]" "example_window ''t'' ''d''"]
  by (simp add: onlyTheme_def example_theme_def)

text \<open>
  C5. The report data the constructor leaves behind: the issue type is Bug, the four include
  flags are true, and the version information is filled in from the package, the product and
  the operating system, with \<open>Commit unknown\<close> and \<open>Date unknown\<close> standing in for
  a commit or a build date that is absent (or empty).
\<close>

theorem constructor_initial_state:
  "issueType (issueReporterModel (IssueReporter_constructor configuration page page_order)) = Bug \<and>
   includeSystemInfo (issueReporterModel (IssueReporter_constructor configuration page page_order)) \<and>
   includeProcessInfo (issueReporterModel (IssueReporter_constructor configuration page page_order)) \<and>
   includeWorkspaceInfo (issueReporterModel (IssueReporter_constructor configuration page page_order)) \<and>
   includeExtensions (issueReporterModel (IssueReporter_constructor configuration page page_order)) \<and>
   versionInfo (issueReporterModel (IssueReporter_constructor configuration page page_order)) =
     \<lparr>vscodeVersion =
        pkg_name configuration @ '' '' @ pkg_version configuration @ '' ('' @
        (case product_commit configuration of
           None \<Rightarrow> ''Commit unknown''
         | Some c \<Rightarrow> if c = [] then ''Commit unknown'' else c) @ '', '' @
        (case product_date configuration of
           None \<Rightarrow> ''Date unknown''
         | Some d \<Rightarrow> if d = [] then ''Date unknown'' else d) @ '')'',
      os = os_type configuration @ '' '' @ os_arch configuration @ '' '' @ os_release configuration\<rparr>"
  by (simp add: IssueReporter_constructor_def Let_def model_handleExtensionData
      new_IssueReporterModel_def or_else_def dom_defs)

lemma model_renderBlocks [simp]: "issueReporterModel (renderBlocks w) = issueReporterModel w"
  by (simp add: renderBlocks_def run_def Let_def dom_defs)

lemma el_value_renderBlocks [simp]:
  "el_value (dom_elems (renderBlocks w) h) = el_value (dom_elems w h)"
  by (simp add: renderBlocks_def run_def Let_def dom_defs)

text \<open>
  C6. A change of the issue type writes the \<open>issueType\<close> member of the report data and
  nothing else of it: the diagnostic data, the include flags, the description and the version
  information stay as they were, and so do the values of the title and description fields.
  Changing the type back gives the report data there was before.
\<close>

theorem onIssueTypeChange_frame:
  "issueReporterModel (onIssueTypeChange v w) = (issueReporterModel w)\<lparr>issueType := v\<rparr> \<and>
   systemInfo (issueReporterModel (onIssueTypeChange v w)) = systemInfo (issueReporterModel w) \<and>
   processInfo (issueReporterModel (onIssueTypeChange v w)) = processInfo (issueReporterModel w) \<and>
   workspaceInfo (issueReporterModel (onIssueTypeChange v w)) = workspaceInfo (issueReporterModel w) \<and>
   enabledNonThemeExtesions (issueReporterModel (onIssueTypeChange v w)) =
     enabledNonThemeExtesions (issueReporterModel w) \<and>
   numberOfThemeExtesions (issueReporterModel (onIssueTypeChange v w)) =
     numberOfThemeExtesions (issueReporterModel w) \<and>
   includeSystemInfo (issueReporterModel (onIssueTypeChange v w)) =
     includeSystemInfo (issueReporterModel w) \<and>
   includeProcessInfo (issueReporterModel (onIssueTypeChange v w)) =
     includeProcessInfo (issueReporterModel w) \<and>
   includeWorkspaceInfo (issueReporterModel (onIssueTypeChange v w)) =
     includeWorkspaceInfo (issueReporterModel w) \<and>
   includeExtensions (issueReporterModel (onIssueTypeChange v w)) =
     includeExtensions (issueReporterModel w) \<and>
   issueDescription (issueReporterModel (onIssueTypeChange v w)) =
     issueDescription (issueReporterModel w) \<and>
   versionInfo (issueReporterModel (onIssueTypeChange v w)) = versionInfo (issueReporterModel w) \<and>
   el_value (dom_elems (onIssueTypeChange v w) ''issue-title'') =
     el_value (dom_elems w ''issue-title'') \<and>
   el_value (dom_elems (onIssueTypeChange v w) ''description'') =
     el_value (dom_elems w ''description'') \<and>
   issueReporterModel
     (onIssueTypeChange (issueType (issueReporterModel w)) (onIssueTypeChange v w)) =
     issueReporterModel w"
  by (simp add: onIssueTypeChange_def render_def update_def)

text \<open>
  C7. A click on one of the four include checkboxes negates that flag of the report data and
  changes nothing else of the state; the diagnostic data the flag stands for is kept.
\<close>

theorem onIncludeClick_frame:
  "onIncludeClick ''includeSystemInfo'' w =
     w\<lparr>issueReporterModel :=
         (issueReporterModel w)\<lparr>includeSystemInfo := \<not> includeSystemInfo (issueReporterModel w)\<rparr>\<rparr> \<and>
   onIncludeClick ''includeProcessInfo'' w =
     w\<lparr>issueReporterModel :=
         (issueReporterModel w)\<lparr>includeProcessInfo := \<not> includeProcessInfo (issueReporterModel w)\<rparr>\<rparr> \<and>
   onIncludeClick ''includeWorkspaceInfo'' w =
     w\<lparr>issueReporterModel :=
         (issueReporterModel w)\<lparr>includeWorkspaceInfo := \<not> includeWorkspaceInfo (issueReporterModel w)\<rparr>\<rparr> \<and>
   onIncludeClick ''includeExtensions'' w =
     w\<lparr>issueReporterModel :=
         (issueReporterModel w)\<lparr>includeExtensions := \<not> includeExtensions (issueReporterModel w)\<rparr>\<rparr>"
  by (simp add: onIncludeClick_def update_def getData_flag_def)





lemma validateInputs_valid:
  "fst (validateInputs w) \<longleftrightarrow>
     el_value (dom_elems w ''issue-title'') \<noteq> [] \<and> el_value (dom_elems w ''description'') \<noteq> []"
  by (simp add: validateInputs_def validateInput_def dom_defs)

lemma validateInputs_invalid_input:
  "''invalid-input'' \<in> classList (dom_elems (snd (validateInputs w)) h) \<longleftrightarrow>
     (if h = ''issue-title'' then el_value (dom_elems w ''issue-title'') = []
      else if h = ''description'' then el_value (dom_elems w ''description'') = []
      else ''invalid-input'' \<in> classList (dom_elems w h))"
  by (simp add: validateInputs_def validateInput_def dom_defs)

lemma validateInputs_hidden:
  "is_hidden (snd (validateInputs w)) h \<longleftrightarrow>
     (if h = ''issue-title-validation-error'' then el_value (dom_elems w ''issue-title'') \<noteq> []
      else if h = ''description-validation-error'' then el_value (dom_elems w ''description'') \<noteq> []
      else is_hidden w h)"
  by (simp add: validateInputs_def validateInput_def dom_defs is_hidden_def)

lemma validateInputs_frame:
  "dom_order (snd (validateInputs w)) = dom_order w"
  "openedExternal (snd (validateInputs w)) = openedExternal w"
  "focused (snd (validateInputs w)) = focused w"
  "windowClosed (snd (validateInputs w)) = windowClosed w"
  "issueReporterModel (snd (validateInputs w)) = issueReporterModel w"
  "telemetryService (snd (validateInputs w)) = telemetryService w"
  "el_value (dom_elems (snd (validateInputs w)) h) = el_value (dom_elems w h)"
  by (simp_all add: validateInputs_def validateInput_def dom_defs)


lemma filter_head_find: "filter P xs = x # rest \<Longrightarrow> List.find P xs = Some x"
  by (induction xs) (auto split: if_splits)

lemma publicLog_frame [simp]:
  "dom_elems (publicLog n t w) = dom_elems w"
  "dom_order (publicLog n t w) = dom_order w"
  "openedExternal (publicLog n t w) = openedExternal w"
  "focused (publicLog n t w) = focused w"
  "windowClosed (publicLog n t w) = windowClosed w"
  "issueReporterModel (publicLog n t w) = issueReporterModel w"
  by (simp_all add: publicLog_def split: option.splits TelemetryService.splits)

lemma createIssue_when_filled:
  assumes "el_value (dom_elems w ''issue-title'') \<noteq> []"
    and "el_value (dom_elems w ''description'') \<noteq> []"
  shows "\<exists>w'. createIssue serialize w = Inr (True, w') \<and>
     openedExternal w' = openedExternal w @
       [''https://github.com/microsoft/vscode/issues/new?title='' @
        el_value (dom_elems w ''issue-title'') @ ''&body='' @
        encodeURIComponent (serialize (issueReporterModel w))] \<and>
     dom_elems w' = dom_elems (snd (validateInputs w)) \<and>
     focused w' = focused w \<and> windowClosed w' = windowClosed w"
proof -
  obtain valid w1 where v: "validateInputs w = (valid, w1)"
    by (cases "validateInputs w")
  have "valid" using validateInputs_valid [of w] assms v by simp
  moreover have "openedExternal w1 = openedExternal w" "issueReporterModel w1 = issueReporterModel w"
    "el_value (dom_elems w1 ''issue-title'') = el_value (dom_elems w ''issue-title'')"
    "focused w1 = focused w" "windowClosed w1 = windowClosed w"
    using validateInputs_frame [of w] v by simp_all
  ultimately show ?thesis
    by (simp add: createIssue_def v Let_def)
qed

lemma createIssue_when_empty:
  assumes empty: "el_value (dom_elems w ''issue-title'') = [] \<or> el_value (dom_elems w ''description'') = []"
    and title: "''issue-title'' \<in> set (dom_order w)"
    and description: "''description'' \<in> set (dom_order w)"
  shows "\<exists>first w'.
     List.find (\<lambda>h. ''invalid-input'' \<in> classList (dom_elems (snd (validateInputs w)) h))
       (dom_order w) = Some first \<and>
     createIssue serialize w = Inr (False, w') \<and>
     focused w' = Some first \<and>
     dom_elems w' = dom_elems (snd (validateInputs w)) \<and>
     openedExternal w' = openedExternal w \<and> windowClosed w' = windowClosed w"
proof -
  let ?w1 = "snd (validateInputs w)"
  let ?P = "\<lambda>h. ''invalid-input'' \<in> classList (dom_elems ?w1 h)"
  have nv: "\<not> fst (validateInputs w)"
    using empty by (auto simp: validateInputs_valid)
  have marked: "getElementsByClassName ''invalid-input'' ?w1 = filter ?P (dom_order w)"
    by (simp add: getElementsByClassName_def validateInputs_frame)
  have "?P ''issue-title'' \<or> ?P ''description''"
    using empty by (simp add: validateInputs_invalid_input)
  with title description have "\<exists>h \<in> set (dom_order w). ?P h"
    by blast
  then have "filter ?P (dom_order w) \<noteq> []"
    by (simp add: filter_empty_conv)
  then obtain first rest where fr: "filter ?P (dom_order w) = first # rest"
    by (cases "filter ?P (dom_order w)") auto
  define w' where "w' = ?w1\<lparr>focused := Some first,
      inputListeners := inputListeners ?w1 @ [''issue-title'', ''description'']\<rparr>"
  have found: "List.find ?P (dom_order w) = Some first"
    by (rule filter_head_find [OF fr])
  have created: "createIssue serialize w = Inr (False, w')"
    using nv by (simp add: createIssue_def case_prod_beta marked fr w'_def)
  have frame: "focused w' = Some first" "dom_elems w' = dom_elems ?w1"
    "openedExternal w' = openedExternal w" "windowClosed w' = windowClosed w"
    by (simp_all add: w'_def validateInputs_frame)
  from found created frame show ?thesis by blast
qed

lemma find_invalid_fields:
  assumes only: "set (getElementsByClassName ''invalid-input'' w) \<subseteq> {''issue-title'', ''description''}"
  shows "List.find (\<lambda>h. ''invalid-input'' \<in> classList (dom_elems (snd (validateInputs w)) h))
       (dom_order w) =
     List.find (\<lambda>h. (h = ''issue-title'' \<or> h = ''description'') \<and> el_value (dom_elems w h) = [])
       (dom_order w)"
proof (rule find_cong [OF refl])
  fix h assume "h \<in> set (dom_order w)"
  with only show "(''invalid-input'' \<in> classList (dom_elems (snd (validateInputs w)) h)) =
      ((h = ''issue-title'' \<or> h = ''description'') \<and> el_value (dom_elems w h) = [])"
    by (auto simp: validateInputs_invalid_input getElementsByClassName_def)
qed

text \<open>
  C3. On a page that holds the two required fields, and where no other element is marked
  invalid, \<open>createIssue\<close> returns true exactly when the title and the description are
  both non-empty. Both fields are checked: each is marked with \<open>invalid-input\<close>, and its
  validation message shown, exactly when it is empty. When a field is empty nothing is
  opened, and the focus goes to the first empty field in document order.
\<close>

theorem createIssue_validation:
  assumes title: "''issue-title'' \<in> set (dom_order w)"
    and description: "''description'' \<in> set (dom_order w)"
    and only: "set (getElementsByClassName ''invalid-input'' w) \<subseteq> {''issue-title'', ''description''}"
  shows "\<exists>created w'. createIssue serialize w = Inr (created, w') \<and>
     (created \<longleftrightarrow>
        el_value (dom_elems w ''issue-title'') \<noteq> [] \<and> el_value (dom_elems w ''description'') \<noteq> []) \<and>
     (''invalid-input'' \<in> classList (dom_elems w' ''issue-title'') \<longleftrightarrow>
        el_value (dom_elems w ''issue-title'') = []) \<and>
     (''invalid-input'' \<in> classList (dom_elems w' ''description'') \<longleftrightarrow>
        el_value (dom_elems w ''description'') = []) \<and>
     (is_hidden w' ''issue-title-validation-error'' \<longleftrightarrow>
        el_value (dom_elems w ''issue-title'') \<noteq> []) \<and>
     (is_hidden w' ''description-validation-error'' \<longleftrightarrow>
        el_value (dom_elems w ''description'') \<noteq> []) \<and>
     (if created then
        openedExternal w' = openedExternal w @
          [''https://github.com/microsoft/vscode/issues/new?title='' @
           el_value (dom_elems w ''issue-title'') @ ''&body='' @
           encodeURIComponent (serialize (issueReporterModel w))]
      else
        openedExternal w' = openedExternal w \<and>
        focused w' \<noteq> None \<and>
        focused w' =
          List.find (\<lambda>h. (h = ''issue-title'' \<or> h = ''description'') \<and> el_value (dom_elems w h) = [])
            (dom_order w))"
proof (cases "el_value (dom_elems w ''issue-title'') \<noteq> [] \<and> el_value (dom_elems w ''description'') \<noteq> []")
  case True
  with createIssue_when_filled [of w serialize] obtain w' where
    "createIssue serialize w = Inr (True, w')"
    "openedExternal w' = openedExternal w @
       [''https://github.com/microsoft/vscode/issues/new?title='' @
        el_value (dom_elems w ''issue-title'') @ ''&body='' @
        encodeURIComponent (serialize (issueReporterModel w))]"
    "dom_elems w' = dom_elems (snd (validateInputs w))"
    by blast
  with True show ?thesis
    by (intro exI [of _ True] exI [of _ w'])
      (simp add: is_hidden_def validateInputs_invalid_input
        validateInputs_hidden [unfolded is_hidden_def])
next
  case False
  then have "el_value (dom_elems w ''issue-title'') = [] \<or> el_value (dom_elems w ''description'') = []"
    by simp
  from createIssue_when_empty [OF this title description, of serialize]
  obtain first w' where
    "List.find (\<lambda>h. ''invalid-input'' \<in> classList (dom_elems (snd (validateInputs w)) h))
       (dom_order w) = Some first"
    "createIssue serialize w = Inr (False, w')"
    "focused w' = Some first"
    "dom_elems w' = dom_elems (snd (validateInputs w))"
    "openedExternal w' = openedExternal w"
    by blast
  with False find_invalid_fields [OF only] show ?thesis
    by (intro exI [of _ False] exI [of _ w'])
      (simp add: is_hidden_def validateInputs_invalid_input
        validateInputs_hidden [unfolded is_hidden_def])
qed

theorem createIssue_validation_witness:
  "\<exists>created w'. createIssue (\<lambda>d. ''report'') (example_window [] ''Steps'') = Inr (created, w') \<and>
     \<not> created \<and>
     ''invalid-input'' \<in> classList (dom_elems w' ''issue-title'') \<and>
     ''invalid-input'' \<notin> classList (dom_elems w' ''description'') \<and>
     \<not> is_hidden w' ''issue-title-validation-error'' \<and>
     is_hidden w' ''description-validation-error'' \<and>
     openedExternal w' = [] \<and>
     focused w' = Some ''issue-title''"
proof -
  let ?w = "example_window [] ''Steps''"
  have page: "''issue-title'' \<in> set (dom_order ?w)" "''description'' \<in> set (dom_order ?w)"
    "set (getElementsByClassName ''invalid-input'' ?w) \<subseteq> {''issue-title'', ''description''}"
    by (simp_all add: example_window_def getElementsByClassName_def)
  have fields: "el_value (dom_elems ?w ''issue-title'') = []"
    "el_value (dom_elems ?w ''description'') = ''Steps''"
    "openedExternal ?w = []" "dom_order ?w = [''issue-title'', ''description'']"
    by (simp_all add: example_window_def)
  show ?thesis
    using createIssue_validation [OF page, of "\<lambda>d. ''report''"]
    by (auto simp: fields)
qed

text \<open>
  C10. With Shift+Enter the window is closed exactly when \<open>createIssue\<close> returns true,
  that is, exactly when the title and the description are both non-empty: the shortcut never
  closes the window while a required field is empty.
\<close>

theorem onkeydown_closes_window:
  assumes title: "''issue-title'' \<in> set (dom_order w)"
    and description: "''description'' \<in> set (dom_order w)"
    and shortcut: "shiftKey e \<and> keyCode e = 13"
    and opened: "\<not> windowClosed w"
  shows "\<exists>w'. onkeydown serialize e w = Inr w' \<and>
     (windowClosed w' \<longleftrightarrow> (\<exists>w''. createIssue serialize w = Inr (True, w''))) \<and>
     (windowClosed w' \<longleftrightarrow>
        el_value (dom_elems w ''issue-title'') \<noteq> [] \<and> el_value (dom_elems w ''description'') \<noteq> [])"
proof (cases "el_value (dom_elems w ''issue-title'') \<noteq> [] \<and> el_value (dom_elems w ''description'') \<noteq> []")
  case True
  with createIssue_when_filled [of w serialize] obtain w' where
    "createIssue serialize w = Inr (True, w')" by blast
  with True shortcut show ?thesis
    by (simp add: onkeydown_def)
next
  case False
  then have "el_value (dom_elems w ''issue-title'') = [] \<or> el_value (dom_elems w ''description'') = []"
    by simp
  from createIssue_when_empty [OF this title description, of serialize]
  obtain w' where "createIssue serialize w = Inr (False, w')" "windowClosed w' = windowClosed w"
    by blast
  with False shortcut opened show ?thesis
    by (simp add: onkeydown_def)
qed

theorem onkeydown_closes_window_witness:
  "\<exists>w'. onkeydown (\<lambda>d. ''report'') \<lparr>shiftKey = True, keyCode = 13\<rparr> (example_window ''Crash on save'' []) = Inr w' \<and>
     \<not> windowClosed w' \<and>
     (\<nexists>w''. createIssue (\<lambda>d. ''report'') (example_window ''Crash on save'' []) = Inr (True, w''))"
proof -
  let ?w = "example_window ''Crash on save'' []"
  have page: "''issue-title'' \<in> set (dom_order ?w)" "''description'' \<in> set (dom_order ?w)"
    by (simp_all add: example_window_def)
  have key: "shiftKey \<lparr>shiftKey = True, keyCode = 13\<rparr> \<and> keyCode \<lparr>shiftKey = True, keyCode = 13\<rparr> = 13"
    by simp
  have opened: "\<not> windowClosed ?w"
    by (simp add: example_window_def)
  have fields: "el_value (dom_elems ?w ''description'') = []"
    by (simp add: example_window_def)
  show ?thesis
    using onkeydown_closes_window [OF page key opened, of "\<lambda>d. ''report''"]
    by (auto simp: fields)
qed

text \<open>
  C8. The URL opened on submission carries the body through \<open>encodeURIComponent\<close>, but
  the title as typed. For the title \<open>C# crash\<close> the \<open>#\<close> starts the fragment: the
  query of the opened URL is \<open>title=C\<close>, it has no \<open>body\<close> parameter, and the rest
  of the title is lost with it.
\<close>

theorem createIssue_title_not_encoded:
  "\<exists>w'. createIssue serialize (example_window ''C# crash'' ''Steps'') = Inr (True, w') \<and>
     openedExternal w' =
       [''https://github.com/microsoft/vscode/issues/new?title=C# crash&body='' @
        encodeURIComponent (serialize (issueReporterModel (example_window ''C# crash'' ''Steps'')))] \<and>
     url_parameters
       (''https://github.com/microsoft/vscode/issues/new?title=C# crash&body='' @
        encodeURIComponent (serialize (issueReporterModel (example_window ''C# crash'' ''Steps'')))) =
       [(''title'', ''C'')]"
proof -
  have "el_value (dom_elems (example_window ''C# crash'' ''Steps'') ''issue-title'') = ''C# crash''"
    "el_value (dom_elems (example_window ''C# crash'' ''Steps'') ''description'') = ''Steps''"
    "openedExternal (example_window ''C# crash'' ''Steps'') = []"
    by (simp_all add: example_window_def)
  with createIssue_when_filled [of "example_window ''C# crash'' ''Steps''" serialize]
  show ?thesis
    by (auto simp: url_parameters_def url_query_def)
qed

end
